theory Spec2Isabelle
  imports Main
begin

section \<open>Go values used by the generator\<close>

text \<open>
  A Go \<open>error\<close> is an opaque value carrying a message. A run-time panic is not an error
  return: it unwinds the handler, so it is kept apart from \<open>Err\<close>.
\<close>

datatype error = Error string

datatype panic =
    NilMapAssignment
  | IndexOutOfRange
  | MakesliceLenOutOfRange
  | RandIntNonPositiveMax

datatype 'a result = Ok 'a | Err error | Panic panic

text \<open>
  A Go map value is either \<open>nil\<close> or an allocated table. Reading a \<open>nil\<close> map finds
  nothing, \<open>delete\<close> on it does nothing, assigning into it panics.
\<close>

type_synonym ('k, 'v) gomap = "('k \<rightharpoonup> 'v) option"

definition go_lookup :: "('k, 'v) gomap \<Rightarrow> 'k \<Rightarrow> 'v option" where
  "go_lookup m k = (case m of None \<Rightarrow> None | Some t \<Rightarrow> t k)"

definition go_delete :: "('k, 'v) gomap \<Rightarrow> 'k \<Rightarrow> ('k, 'v) gomap" where
  "go_delete m k = (case m of None \<Rightarrow> None | Some t \<Rightarrow> Some (t(k := None)))"

definition go_assign :: "('k, 'v) gomap \<Rightarrow> 'k \<Rightarrow> 'v \<Rightarrow> panic + ('k, 'v) gomap" where
  "go_assign m k v = (case m of None \<Rightarrow> Inl NilMapAssignment | Some t \<Rightarrow> Inr (Some (t(k \<mapsto> v))))"

section \<open>Constants of \<open>main.go\<close>\<close>

definition SecretGenerateAnnotation :: string where
  "SecretGenerateAnnotation = ''secret-generator.v1.mittwald.de/autogenerate''"

definition SecretGeneratedAtAnnotation :: string where
  "SecretGeneratedAtAnnotation = ''secret-generator.v1.mittwald.de/autogenerate-generated-at''"

definition SecretRegenerateAnnotation :: string where
  "SecretRegenerateAnnotation = ''secret-generator.v1.mittwald.de/regenerate''"

definition runes :: string where
  "runes = ''abcdefghijklmnopqrstuvwxyzABCDEFGHIJKLMNOPQRSTUVWXYZ0123456789''"

section \<open>The record and its surroundings\<close>

text \<open>
  The fields of \<open>v1.Secret\<close> that the handler reads or that identify the object; every
  other field of the object lives in the record's extension (\<open>secret.more\<close>), so the
  definitions below are stated for any \<open>'a secret_scheme\<close>. \<open>Data\<close> values are byte
  strings.
\<close>

record secret =
  Name :: string
  Namespace :: string
  ResourceVersion :: string
  Annotations :: "(string, string) gomap"
  Data :: "(string, string) gomap"

text \<open>
  The random source as the generator sees it: the outcomes of the successive calls of
  \<open>rand.Int(rand.Reader, mx)\<close>, each an error of the reader or the number drawn. A
  source with nothing left reports an error.
\<close>

type_synonym reader = "(error + int) list"

definition rand_Int :: "reader \<Rightarrow> int \<Rightarrow> int result \<times> reader" where
  "rand_Int rd mx =
     (if mx \<le> 0 then (Panic RandIntNonPositiveMax, rd)
      else case rd of
             [] \<Rightarrow> (Err (Error ''EOF''), [])
           | Inl err # rd' \<Rightarrow> (Err err, rd')
           | Inr n # rd' \<Rightarrow> (Ok n, rd'))"

text \<open>
  What one delivery of a snapshot meets outside the handler: whether the deep copy
  fails, the random source, the rendering of the clock, whether the store rejects the
  request for a reason of its own, and the version the store would assign.
\<close>

record env =
  copy_fault :: "error option"
  rand_Reader :: reader
  time_Now_String :: string
  update_fault :: "error option"
  new_version :: string

text \<open>
  The store behind \<open>c.client\<close>: the objects it holds, by namespace and name, and every
  \<open>Update\<close> request it has received, newest first.
\<close>

record 'a client =
  objects :: "string \<times> string \<rightharpoonup> 'a secret_scheme"
  requests :: "'a secret_scheme list"

text \<open>
  Modelled from the spec: \<open>util.CopyObjToSecret\<close> belongs to the repository's \<open>util\<close>
  package, which is not among the sources. Section 4.2 step 7 of the spec builds the
  updated snapshot "starting from the received one (preserving its version token and
  all unrelated fields)", and the call site handles an error return: the copy either
  fails or equals the received snapshot.
\<close>

definition CopyObjToSecret :: "error option \<Rightarrow> 'a secret_scheme \<Rightarrow> 'a secret_scheme result" where
  "CopyObjToSecret fault obj = (case fault of Some err \<Rightarrow> Err err | None \<Rightarrow> Ok obj)"

text \<open>
  Modelled from the spec: the store write interface of section 6, "a conditional update
  operation taking a full record body plus its expected version token, returning success
  with the new version token, or a conflict/error outcome", which "either fully succeeds
  or fully fails" (section 5). Every request is recorded, whatever its outcome.
\<close>

definition Update ::
  "error option \<Rightarrow> string \<Rightarrow> 'a client \<Rightarrow> 'a secret_scheme \<Rightarrow> 'a secret_scheme result \<times> 'a client" where
  "Update fault ver cl s =
     (let cl' = cl\<lparr>requests := s # requests cl\<rparr> in
      case fault of
        Some err \<Rightarrow> (Err err, cl')
      | None \<Rightarrow>
          (case objects cl (Namespace s, Name s) of
             None \<Rightarrow> (Err (Error ''not found''), cl')
           | Some cur \<Rightarrow>
               if ResourceVersion s \<noteq> ResourceVersion cur then (Err (Error ''conflict''), cl')
               else (Ok (s\<lparr>ResourceVersion := ver\<rparr>),
                     cl'\<lparr>objects := (objects cl)((Namespace s, Name s) \<mapsto> s\<lparr>ResourceVersion := ver\<rparr>)\<rparr>)))"

section \<open>Token generator\<close>

text \<open>
  \<open>generateSecret\<close>, lines 168 to 178. The loop \<open>for i := range b\<close> visits the indices
  of \<open>b\<close> in order; an error of the source ends the function at once, and the index
  expression \<open>runes[n.Int64()]\<close> is bounds-checked. \<open>make\<close> panics on a negative length,
  and the fresh slice holds the zero rune.
\<close>

fun generateSecret_loop :: "nat list \<Rightarrow> reader \<Rightarrow> string \<Rightarrow> string result" where
  "generateSecret_loop [] rd b = Ok b"
| "generateSecret_loop (i # is) rd b =
     (case rand_Int rd (int (length runes)) of
        (Err err, rd') \<Rightarrow> Err err
      | (Panic p, rd') \<Rightarrow> Panic p
      | (Ok n, rd') \<Rightarrow>
          if 0 \<le> n \<and> n < int (length runes)
          then generateSecret_loop is rd' (b[i := runes ! nat n])
          else Panic IndexOutOfRange)"

definition generateSecret :: "reader \<Rightarrow> int \<Rightarrow> string result" where
  "generateSecret rd len =
     (if len < 0 then Panic MakesliceLenOutOfRange
      else generateSecret_loop [0..<nat len] rd (replicate (nat len) (CHR 0x00)))"

section \<open>Reconciliation handler\<close>

text \<open>
  How one call of \<open>SecretAdded\<close> ends: one constructor for each \<open>return\<close> of the function,
  in the order of the source, and one for a panic. The two last returns carry the
  snapshot that was handed to \<open>Update\<close>.
\<close>

datatype 'a outcome =
    Unmanaged
  | NoUpdateNeeded
  | CopyFailed error
  | GenerateFailed error
  | UpdateFailed "'a secret_scheme" error
  | Updated "'a secret_scheme"
  | Panicked panic

text \<open>
  \<open>SecretAdded\<close>, lines 114 to 166, with the global \<open>secretLength\<close> passed in. The log
  calls write to the process log only and are left out.
\<close>

definition SecretAdded ::
  "int \<Rightarrow> env \<Rightarrow> 'a client \<Rightarrow> 'a secret_scheme \<Rightarrow> 'a outcome \<times> 'a client" where
  "SecretAdded secretLength e cl secret =
     (case go_lookup (Annotations secret) SecretGenerateAnnotation of
        None \<Rightarrow> (Unmanaged, cl)
      | Some val \<Rightarrow>
          let regenerateNeeded = False;
              regenerateNeeded =
                (if go_lookup (Annotations secret) SecretGeneratedAtAnnotation = None
                 then True else regenerateNeeded);
              regenerateNeeded =
                (if go_lookup (Annotations secret) SecretRegenerateAnnotation \<noteq> None
                 then True else regenerateNeeded)
          in
          if \<not> regenerateNeeded then (NoUpdateNeeded, cl)
          else
            (case CopyObjToSecret (copy_fault e) secret of
               Err err \<Rightarrow> (CopyFailed err, cl)
             | Panic p \<Rightarrow> (Panicked p, cl)
             | Ok secretCopy \<Rightarrow>
                 (case generateSecret (rand_Reader e) secretLength of
                    Err err \<Rightarrow> (GenerateFailed err, cl)
                  | Panic p \<Rightarrow> (Panicked p, cl)
                  | Ok newPassword \<Rightarrow>
                      let annotations =
                            (if go_lookup (Annotations secretCopy) SecretRegenerateAnnotation \<noteq> None
                             then go_delete (Annotations secretCopy) SecretRegenerateAnnotation
                             else Annotations secretCopy)
                      in
                      (case go_assign annotations SecretGeneratedAtAnnotation (time_Now_String e) of
                         Inl p \<Rightarrow> (Panicked p, cl)
                       | Inr annotations' \<Rightarrow>
                           (case go_assign (Data secretCopy) val newPassword of
                              Inl p \<Rightarrow> (Panicked p, cl)
                            | Inr data' \<Rightarrow>
                                let secretCopy' = secretCopy\<lparr>Annotations := annotations', Data := data'\<rparr>
                                in
                                (case Update (update_fault e) (new_version e) cl secretCopy' of
                                   (Err err, cl') \<Rightarrow> (UpdateFailed secretCopy' err, cl')
                                 | (Panic p, cl') \<Rightarrow> (Panicked p, cl')
                                 | (Ok stored, cl') \<Rightarrow> (Updated secretCopy', cl')))))))"

text \<open>The snapshot a call handed to the store, if it got that far.\<close>

fun submitted :: "'a outcome \<Rightarrow> 'a secret_scheme option" where
  "submitted (UpdateFailed s err) = Some s"
| "submitted (Updated s) = Some s"
| "submitted _ = None"

text \<open>
  Delivering the same snapshot again and again, once for each environment of the list:
  the store is threaded through the calls.
\<close>

fun redeliver :: "int \<Rightarrow> env list \<Rightarrow> 'a client \<Rightarrow> 'a secret_scheme \<Rightarrow> 'a client" where
  "redeliver secretLength [] cl secret = cl"
| "redeliver secretLength (e # es) cl secret =
     redeliver secretLength es (snd (SecretAdded secretLength e cl secret)) secret"

text \<open>The keys a Go map holds.\<close>

definition go_keys :: "('k, 'v) gomap \<Rightarrow> 'k set" where
  "go_keys m = (case m of None \<Rightarrow> {} | Some t \<Rightarrow> dom t)"

text \<open>
  The snapshot lines 152 to 158 build from the copy: the regenerate mark dropped, the
  time of generation recorded, the token stored under the target key.
\<close>

definition rebuilt ::
  "'a secret_scheme \<Rightarrow> (string \<rightharpoonup> string) \<Rightarrow> (string \<rightharpoonup> string) \<Rightarrow> string \<Rightarrow> string \<Rightarrow> string
     \<Rightarrow> 'a secret_scheme" where
  "rebuilt secret a d val now tok =
     secret\<lparr>Annotations := Some ((a(SecretRegenerateAnnotation := None))(SecretGeneratedAtAnnotation \<mapsto> now)),
            Data := Some (d(val \<mapsto> tok))\<rparr>"

section \<open>Sample inputs\<close>

definition example_env :: env where
  "example_env =
     \<lparr>copy_fault = None, rand_Reader = map Inr [0, 26, 52],
      time_Now_String = ''2017-06-01 12:00:00.000000001 +0000 UTC'',
      update_fault = None, new_version = ''2''\<rparr>"

definition example_fresh :: secret where
  "example_fresh =
     \<lparr>Name = ''db'', Namespace = ''default'', ResourceVersion = ''1'',
      Annotations = Some [SecretGenerateAnnotation \<mapsto> ''password''],
      Data = Some [''username'' \<mapsto> ''admin'']\<rparr>"

definition example_settled :: secret where
  "example_settled =
     \<lparr>Name = ''db'', Namespace = ''default'', ResourceVersion = ''2'',
      Annotations = Some [SecretGenerateAnnotation \<mapsto> ''password'',
                          SecretGeneratedAtAnnotation \<mapsto> ''2017-06-01 12:00:00.000000001 +0000 UTC''],
      Data = Some [''username'' \<mapsto> ''admin'', ''password'' \<mapsto> ''aA0'']\<rparr>"

definition example_unmanaged :: secret where
  "example_unmanaged =
     \<lparr>Name = ''tls'', Namespace = ''default'', ResourceVersion = ''7'',
      Annotations = Some [SecretGeneratedAtAnnotation \<mapsto> ''yesterday'',
                          SecretRegenerateAnnotation \<mapsto> ''yes''],
      Data = Some [''password'' \<mapsto> ''hunter2'']\<rparr>"

definition example_first :: secret where
  "example_first =
     \<lparr>Name = ''db'', Namespace = ''default'', ResourceVersion = ''1'',
      Annotations = Some [SecretGenerateAnnotation \<mapsto> ''password'',
                          SecretGeneratedAtAnnotation \<mapsto> ''2017-06-01 12:00:00.000000001 +0000 UTC''],
      Data = Some [''username'' \<mapsto> ''admin'', ''password'' \<mapsto> ''aA0'']\<rparr>"

definition example_client :: "unit client" where
  "example_client = \<lparr>objects = [(''default'', ''db'') \<mapsto> example_fresh], requests = []\<rparr>"



definition example_regen :: secret where
  "example_regen =
     \<lparr>Name = ''db'', Namespace = ''default'', ResourceVersion = ''1'',
      Annotations = Some [SecretGenerateAnnotation \<mapsto> ''password'',
                          SecretGeneratedAtAnnotation \<mapsto> ''2017-05-01 08:00:00 +0000 UTC'',
                          SecretRegenerateAnnotation \<mapsto> ''yes''],
      Data = Some [''password'' \<mapsto> ''aaaaaaaaaaaaaaaaaaaaaaaaaaaaaaaaaaaaaaaa'']\<rparr>"

definition example_env_same :: env where
  "example_env_same =
     \<lparr>copy_fault = None, rand_Reader = map Inr (replicate 40 0),
      time_Now_String = ''2017-06-01 12:00:00.000000001 +0000 UTC'',
      update_fault = None, new_version = ''2''\<rparr>"

definition example_regen_out :: secret where
  "example_regen_out =
     \<lparr>Name = ''db'', Namespace = ''default'', ResourceVersion = ''1'',
      Annotations = Some [SecretGenerateAnnotation \<mapsto> ''password'',
                          SecretGeneratedAtAnnotation \<mapsto> ''2017-06-01 12:00:00.000000001 +0000 UTC''],
      Data = Some [''password'' \<mapsto> ''aaaaaaaaaaaaaaaaaaaaaaaaaaaaaaaaaaaaaaaa'']\<rparr>"

definition example_env_noentropy :: env where
  "example_env_noentropy =
     \<lparr>copy_fault = None, rand_Reader = [Inr 7, Inl (Error ''entropy source failed'')],
      time_Now_String = ''2017-06-01 12:00:00.000000001 +0000 UTC'',
      update_fault = None, new_version = ''2''\<rparr>"

definition example_stale :: secret where
  "example_stale =
     \<lparr>Name = ''db'', Namespace = ''default'', ResourceVersion = ''0'',
      Annotations = Some [SecretGenerateAnnotation \<mapsto> ''password''],
      Data = Some [''username'' \<mapsto> ''admin'']\<rparr>"

definition example_stale_out :: secret where
  "example_stale_out =
     \<lparr>Name = ''db'', Namespace = ''default'', ResourceVersion = ''0'',
      Annotations = Some [SecretGenerateAnnotation \<mapsto> ''password'',
                          SecretGeneratedAtAnnotation \<mapsto> ''2017-06-01 12:00:00.000000001 +0000 UTC''],
      Data = Some [''username'' \<mapsto> ''admin'', ''password'' \<mapsto> ''aA0'']\<rparr>"

definition example_blank :: secret where
  "example_blank =
     \<lparr>Name = ''q'', Namespace = ''default'', ResourceVersion = ''5'',
      Annotations = Some [SecretGenerateAnnotation \<mapsto> '''',
                          SecretGeneratedAtAnnotation \<mapsto> '''',
                          SecretRegenerateAnnotation \<mapsto> ''''],
      Data = Some [''user'' \<mapsto> ''root'']\<rparr>"

definition example_blank_settled :: secret where
  "example_blank_settled =
     \<lparr>Name = ''q'', Namespace = ''default'', ResourceVersion = ''6'',
      Annotations = Some [SecretGenerateAnnotation \<mapsto> '''',
                          SecretGeneratedAtAnnotation \<mapsto> ''''],
      Data = Some [''user'' \<mapsto> ''root'', '''' \<mapsto> ''aA0'']\<rparr>"

section \<open>Facts about the constants and the generator\<close>

lemma annotation_keys_distinct:
  "SecretGenerateAnnotation \<noteq> SecretGeneratedAtAnnotation"
  "SecretGenerateAnnotation \<noteq> SecretRegenerateAnnotation"
  "SecretGeneratedAtAnnotation \<noteq> SecretRegenerateAnnotation"
  by (simp_all add: SecretGenerateAnnotation_def SecretGeneratedAtAnnotation_def
      SecretRegenerateAnnotation_def)

lemma length_runes: "length runes = 62"
  by (simp add: runes_def)

lemma distinct_runes: "distinct runes"
  by (simp add: runes_def)

text \<open>
  A token that \<open>generateSecret\<close> returns has the length asked for and consists of
  characters of \<open>runes\<close>.
\<close>

lemma generateSecret_loop_Ok:
  "generateSecret_loop is rd b = Ok tok \<Longrightarrow> \<forall>i\<in>set is. i < length b \<Longrightarrow>
     length tok = length b \<and> (\<forall>j\<in>set is. tok ! j \<in> set runes) \<and>
     (\<forall>j. j \<notin> set is \<longrightarrow> tok ! j = b ! j)"
proof (induction "is" arbitrary: rd b)
  case Nil
  then show ?case by simp
next
  case (Cons i "is")
  obtain r rd' where r: "rand_Int rd (int (length runes)) = (r, rd')"
    by (cases "rand_Int rd (int (length runes))")
  from Cons.prems(1) r obtain n where n: "r = Ok n" "0 \<le> n" "n < int (length runes)"
    and rec: "generateSecret_loop is rd' (b[i := runes ! nat n]) = Ok tok"
    by (cases r) (auto split: if_splits)
  let ?b = "b[i := runes ! nat n]"
  from Cons.prems(2) have "\<forall>k\<in>set is. k < length ?b" by simp
  from Cons.IH [OF rec this]
  have len: "length tok = length b"
    and inr: "\<forall>j\<in>set is. tok ! j \<in> set runes"
    and out: "\<forall>j. j \<notin> set is \<longrightarrow> tok ! j = ?b ! j"
    by simp_all
  from n have mem: "runes ! nat n \<in> set runes"
    by (intro nth_mem) linarith
  have "tok ! i \<in> set runes"
  proof (cases "i \<in> set is")
    case True
    with inr show ?thesis by blast
  next
    case False
    with out have "tok ! i = ?b ! i" by blast
    also from Cons.prems(2) have "?b ! i = runes ! nat n" by simp
    finally show ?thesis using mem by simp
  qed
  moreover have "\<forall>j. j \<notin> set (i # is) \<longrightarrow> tok ! j = b ! j"
    using out by auto
  ultimately show ?case using len inr by simp
qed

lemma generateSecret_Ok:
  assumes "generateSecret rd len = Ok tok"
  shows "0 \<le> len" and "int (length tok) = len" and "set tok \<subseteq> set runes"
proof -
  from assms show nonneg: "0 \<le> len"
    by (cases "len < 0") (simp_all add: generateSecret_def)
  with assms have run:
    "generateSecret_loop [0..<nat len] rd (replicate (nat len) (CHR 0x00)) = Ok tok"
    by (simp add: generateSecret_def)
  have "\<forall>i\<in>set [0..<nat len]. i < length (replicate (nat len) (CHR 0x00))"
    by simp
  from generateSecret_loop_Ok [OF run this]
  have len: "length tok = nat len" and mem: "\<forall>j<nat len. tok ! j \<in> set runes"
    by simp_all
  from len nonneg show "int (length tok) = len" by simp
  from len mem show "set tok \<subseteq> set runes"
    by (auto simp: in_set_conv_nth)
qed

text \<open>
  When the source delivers enough numbers below \<open>len(runes)\<close>, the generator returns:
  the token is the sequence of the runes drawn. A negative length panics in \<open>make\<close>, and
  an error of the source before the last draw is returned as it is.
\<close>

lemma generateSecret_loop_draws:
  "k + length ns \<le> length b \<Longrightarrow> \<forall>n\<in>set ns. 0 \<le> n \<and> n < int (length runes) \<Longrightarrow>
   generateSecret_loop [k..<k + length ns] (map Inr ns @ rest) b =
     Ok (take k b @ map (\<lambda>n. runes ! nat n) ns @ drop (k + length ns) b)"
proof (induction ns arbitrary: k b)
  case Nil
  then show ?case by simp
next
  case (Cons n ns)
  have pos: "\<not> int (length runes) \<le> 0" by (simp add: length_runes)
  have upt: "[k..<k + length (n # ns)] = k # [Suc k..<Suc k + length ns]"
    by (simp add: upt_rec)
  let ?b = "b[k := runes ! nat n]"
  from Cons.prems have k: "k < length b" and le: "Suc k + length ns \<le> length ?b" by simp_all
  from Cons.prems have rng: "\<forall>m\<in>set ns. 0 \<le> m \<and> m < int (length runes)"
    and n: "0 \<le> n" "n < int (length runes)" by simp_all
  have "generateSecret_loop [k..<k + length (n # ns)] (map Inr (n # ns) @ rest) b =
          generateSecret_loop [Suc k..<Suc k + length ns] (map Inr ns @ rest) ?b"
    unfolding upt using n pos by (simp add: rand_Int_def)
  also have "\<dots> = Ok (take (Suc k) ?b @ map (\<lambda>n. runes ! nat n) ns @ drop (Suc k + length ns) ?b)"
    by (rule Cons.IH [OF le rng])
  also have "take (Suc k) ?b = take k b @ [runes ! nat n]"
    using k by (simp add: take_Suc_conv_app_nth)
  also have "drop (Suc k + length ns) ?b = drop (k + length (n # ns)) b"
    by simp
  finally show ?case by simp
qed

lemma generateSecret_draws:
  assumes "\<forall>n\<in>set ns. 0 \<le> n \<and> n < int (length runes)"
  shows "generateSecret (map Inr ns @ rest) (int (length ns)) = Ok (map (\<lambda>n. runes ! nat n) ns)"
proof -
  have "generateSecret_loop [0..<0 + length ns] (map Inr ns @ rest) (replicate (length ns) (CHR 0x00)) =
          Ok (take 0 (replicate (length ns) (CHR 0x00)) @ map (\<lambda>n. runes ! nat n) ns @
              drop (0 + length ns) (replicate (length ns) (CHR 0x00)))"
    by (rule generateSecret_loop_draws) (use assms in simp_all)
  then show ?thesis by (simp add: generateSecret_def)
qed

lemma generateSecret_negative: "len < 0 \<Longrightarrow> generateSecret rd len = Panic MakesliceLenOutOfRange"
  by (simp add: generateSecret_def)

lemma generateSecret_loop_reader_error:
  "\<forall>n\<in>set ns. 0 \<le> n \<and> n < int (length runes) \<Longrightarrow> length ns < length is \<Longrightarrow>
   generateSecret_loop is (map Inr ns @ Inl err # rest) b = Err err"
proof (induction ns arbitrary: "is" b)
  case Nil
  then obtain i is' where "is = i # is'" by (cases "is") auto
  then show ?case by (simp add: rand_Int_def length_runes)
next
  case (Cons n ns)
  then obtain i is' where "is = i # is'" by (cases "is") auto
  with Cons show ?case by (simp add: rand_Int_def length_runes)
qed

lemma generateSecret_reader_error:
  assumes "\<forall>n\<in>set ns. 0 \<le> n \<and> n < int (length runes)" and "int (length ns) < len"
  shows "generateSecret (map Inr ns @ Inl err # rest) len = Err err"
proof -
  from assms(2) have "\<not> len < 0" and "length ns < length [0..<nat len]" by simp_all
  with assms(1) show ?thesis
    by (simp add: generateSecret_def generateSecret_loop_reader_error del: length_upt)
qed

section \<open>Facts about the handler\<close>

lemma SecretAdded_Unmanaged:
  "go_lookup (Annotations secret) SecretGenerateAnnotation = None \<Longrightarrow>
   SecretAdded secretLength e cl secret = (Unmanaged, cl)"
  by (simp add: SecretAdded_def)

lemma SecretAdded_NoUpdateNeeded:
  "go_lookup (Annotations secret) SecretGenerateAnnotation = Some val \<Longrightarrow>
   go_lookup (Annotations secret) SecretGeneratedAtAnnotation = Some at \<Longrightarrow>
   go_lookup (Annotations secret) SecretRegenerateAnnotation = None \<Longrightarrow>
   SecretAdded secretLength e cl secret = (NoUpdateNeeded, cl)"
  by (simp add: SecretAdded_def)

text \<open>
  The path through lines 140 to 162: for a managed snapshot that needs a token, with
  the copy and the generator successful and \<open>Data\<close> allocated, the handler calls
  \<open>Update\<close> on the rebuilt snapshot and ends according to the answer.
\<close>

lemma SecretAdded_regenerates:
  assumes "Annotations secret = Some a" and "a SecretGenerateAnnotation = Some val"
    and "a SecretGeneratedAtAnnotation = None \<or> a SecretRegenerateAnnotation \<noteq> None"
    and "copy_fault e = None"
    and "generateSecret (rand_Reader e) secretLength = Ok tok"
    and "Data secret = Some d"
  shows "SecretAdded secretLength e cl secret =
     (case Update (update_fault e) (new_version e) cl (rebuilt secret a d val (time_Now_String e) tok) of
        (Err err, cl') \<Rightarrow> (UpdateFailed (rebuilt secret a d val (time_Now_String e) tok) err, cl')
      | (Panic p, cl') \<Rightarrow> (Panicked p, cl')
      | (Ok stored, cl') \<Rightarrow> (Updated (rebuilt secret a d val (time_Now_String e) tok), cl'))"
proof (cases "a SecretRegenerateAnnotation")
  case None
  then have "a(SecretRegenerateAnnotation := None) = a" by (simp add: fun_upd_idem)
  with None assms show ?thesis
    unfolding rebuilt_def
    by (simp add: SecretAdded_def go_lookup_def CopyObjToSecret_def go_assign_def
        Let_def split: prod.splits result.splits)
next
  case (Some v)
  with assms show ?thesis
    unfolding rebuilt_def
    by (simp add: SecretAdded_def go_lookup_def CopyObjToSecret_def go_assign_def
        go_delete_def Let_def split: prod.splits result.splits)
qed

lemma Update_cases:
  "Update fault ver cl s = (r, cl') \<Longrightarrow>
     requests cl' = s # requests cl \<and>
     ((\<exists>err. r = Err err \<and> objects cl' = objects cl) \<or>
      (r = Ok (s\<lparr>ResourceVersion := ver\<rparr>) \<and> fault = None))"
  by (auto simp: Update_def Let_def split: option.splits if_splits)

lemma submitted_cases:
  assumes "submitted (fst (SecretAdded secretLength e cl secret)) = Some out"
  shows "\<exists>a d val tok. Annotations secret = Some a \<and> a SecretGenerateAnnotation = Some val \<and>
           (a SecretGeneratedAtAnnotation = None \<or> a SecretRegenerateAnnotation \<noteq> None) \<and>
           copy_fault e = None \<and> generateSecret (rand_Reader e) secretLength = Ok tok \<and>
           Data secret = Some d \<and> out = rebuilt secret a d val (time_Now_String e) tok"
  using assms unfolding SecretAdded_def rebuilt_def
  by (auto simp add: go_lookup_def CopyObjToSecret_def go_assign_def Let_def go_delete_def
        fun_upd_idem
        split: prod.splits result.splits option.splits if_splits sum.splits)

lemma redeliver_fixed:
  "(\<And>e. snd (SecretAdded secretLength e cl secret) = cl) \<Longrightarrow>
   redeliver secretLength es cl secret = cl"
  by (induction es) simp_all

lemma rebuilt_lookups:
  "go_lookup (Annotations (rebuilt secret a d val now tok)) SecretGeneratedAtAnnotation = Some now"
  "go_lookup (Annotations (rebuilt secret a d val now tok)) SecretRegenerateAnnotation = None"
  "a SecretGenerateAnnotation = Some val \<Longrightarrow>
     go_lookup (Annotations (rebuilt secret a d val now tok)) SecretGenerateAnnotation = Some val"
  "go_lookup (Data (rebuilt secret a d val now tok)) val = Some tok"
  using annotation_keys_distinct by (simp_all add: rebuilt_def go_lookup_def)

lemma submitted_regenerates:
  assumes "Annotations secret = Some a" and "a SecretGenerateAnnotation = Some val"
    and "a SecretGeneratedAtAnnotation = None \<or> a SecretRegenerateAnnotation \<noteq> None"
    and "copy_fault e = None"
    and "generateSecret (rand_Reader e) secretLength = Ok tok"
    and "Data secret = Some d"
  shows "submitted (fst (SecretAdded secretLength e cl secret)) =
           Some (rebuilt secret a d val (time_Now_String e) tok)"
proof -
  obtain r cl' where u:
    "Update (update_fault e) (new_version e) cl (rebuilt secret a d val (time_Now_String e) tok) = (r, cl')"
    by (cases "Update (update_fault e) (new_version e) cl (rebuilt secret a d val (time_Now_String e) tok)")
  from Update_cases [OF u] have "(\<exists>err. r = Err err) \<or> (\<exists>s. r = Ok s)" by blast
  then show ?thesis
    unfolding SecretAdded_regenerates [OF assms] u by auto
qed

lemma SecretAdded_GenerateFailed:
  assumes "go_lookup (Annotations secret) SecretGenerateAnnotation = Some val"
    and "go_lookup (Annotations secret) SecretGeneratedAtAnnotation = None \<or>
         go_lookup (Annotations secret) SecretRegenerateAnnotation \<noteq> None"
    and "copy_fault e = None"
    and "generateSecret (rand_Reader e) secretLength = Err err"
  shows "SecretAdded secretLength e cl secret = (GenerateFailed err, cl)"
  using assms by (auto simp add: SecretAdded_def CopyObjToSecret_def Let_def)

lemma Update_Err:
  "fst (Update fault ver cl s) = Err err \<Longrightarrow>
   Update fault ver cl s = (Err err, cl\<lparr>requests := s # requests cl\<rparr>)"
  by (auto simp: Update_def Let_def split: option.splits if_splits)

lemma SecretAdded_UpdateFailed:
  assumes sub: "submitted (fst (SecretAdded secretLength e cl secret)) = Some out"
    and upd: "fst (Update (update_fault e) (new_version e) cl out) = Err err"
  shows "SecretAdded secretLength e cl secret = (UpdateFailed out err, cl\<lparr>requests := out # requests cl\<rparr>)"
proof -
  from submitted_cases [OF sub] obtain a d val tok where
    *: "Annotations secret = Some a" "a SecretGenerateAnnotation = Some val"
       "a SecretGeneratedAtAnnotation = None \<or> a SecretRegenerateAnnotation \<noteq> None"
       "copy_fault e = None" "generateSecret (rand_Reader e) secretLength = Ok tok"
       "Data secret = Some d"
    and out: "out = rebuilt secret a d val (time_Now_String e) tok"
    by blast
  show ?thesis
    unfolding SecretAdded_regenerates [OF *] out [symmetric] Update_Err [OF upd] by simp
qed

lemma SecretAdded_Unmanaged_iff:
  "fst (SecretAdded secretLength e cl secret) = Unmanaged \<longleftrightarrow>
   go_lookup (Annotations secret) SecretGenerateAnnotation = None"
  by (auto simp add: SecretAdded_def CopyObjToSecret_def Let_def
      split: option.splits result.splits sum.splits prod.splits)

lemma SecretAdded_NoUpdateNeeded_iff:
  "fst (SecretAdded secretLength e cl secret) = NoUpdateNeeded \<longleftrightarrow>
   go_lookup (Annotations secret) SecretGenerateAnnotation \<noteq> None \<and>
   go_lookup (Annotations secret) SecretGeneratedAtAnnotation \<noteq> None \<and>
   go_lookup (Annotations secret) SecretRegenerateAnnotation = None"
  by (auto simp add: SecretAdded_def CopyObjToSecret_def Let_def
      split: option.splits result.splits sum.splits prod.splits)

lemma SecretAdded_writes_target:
  assumes "go_lookup (Annotations secret) SecretGenerateAnnotation = Some val"
    and "go_lookup (Annotations secret) SecretGeneratedAtAnnotation = None \<or>
         go_lookup (Annotations secret) SecretRegenerateAnnotation \<noteq> None"
    and "copy_fault e = None"
    and "generateSecret (rand_Reader e) secretLength = Ok tok"
    and "Data secret \<noteq> None"
  shows "\<exists>out. submitted (fst (SecretAdded secretLength e cl secret)) = Some out \<and>
           go_lookup (Data out) val = Some tok"
proof -
  from assms(1) obtain a where a: "Annotations secret = Some a" "a SecretGenerateAnnotation = Some val"
    by (cases "Annotations secret") (simp_all add: go_lookup_def)
  from assms(2) a have re: "a SecretGeneratedAtAnnotation = None \<or> a SecretRegenerateAnnotation \<noteq> None"
    by (simp add: go_lookup_def)
  from assms(5) obtain d where d: "Data secret = Some d" by blast
  have "submitted (fst (SecretAdded secretLength e cl secret)) =
          Some (rebuilt secret a d val (time_Now_String e) tok)"
    using a re assms(3,4) d by (rule submitted_regenerates)
  moreover note rebuilt_lookups(4) [of secret a d val "time_Now_String e" tok]
  ultimately show ?thesis by blast
qed

text \<open>
  When the store accepts the request, it holds the rebuilt snapshot under the version
  it assigned. With \<open>Data\<close> not allocated (and the copy as modelled above, which keeps
  it so), the assignment of line 158 panics before any request is made.
\<close>

lemma SecretAdded_Updated:
  assumes sub: "submitted (fst (SecretAdded secretLength e cl secret)) = Some out"
    and "update_fault e = None"
    and "objects cl (Namespace secret, Name secret) = Some cur"
    and "ResourceVersion cur = ResourceVersion secret"
  shows "SecretAdded secretLength e cl secret =
           (Updated out,
            cl\<lparr>requests := out # requests cl,
               objects := (objects cl)((Namespace secret, Name secret) \<mapsto>
                            out\<lparr>ResourceVersion := new_version e\<rparr>)\<rparr>)"
proof -
  from submitted_cases [OF sub] obtain a d val tok where
    *: "Annotations secret = Some a" "a SecretGenerateAnnotation = Some val"
       "a SecretGeneratedAtAnnotation = None \<or> a SecretRegenerateAnnotation \<noteq> None"
       "copy_fault e = None" "generateSecret (rand_Reader e) secretLength = Ok tok"
       "Data secret = Some d"
    and out: "out = rebuilt secret a d val (time_Now_String e) tok"
    by blast
  have same: "Namespace out = Namespace secret" "Name out = Name secret"
    "ResourceVersion out = ResourceVersion secret"
    by (simp_all add: out rebuilt_def)
  have "Update (update_fault e) (new_version e) cl out =
          (Ok (out\<lparr>ResourceVersion := new_version e\<rparr>),
           cl\<lparr>requests := out # requests cl,
              objects := (objects cl)((Namespace secret, Name secret) \<mapsto>
                            out\<lparr>ResourceVersion := new_version e\<rparr>)\<rparr>)"
    using assms(2-4) by (simp add: Update_def same Let_def)
  then show ?thesis
    unfolding SecretAdded_regenerates [OF *] out [symmetric] by simp
qed

lemma SecretAdded_nil_Data:
  assumes "go_lookup (Annotations secret) SecretGenerateAnnotation = Some val"
    and "go_lookup (Annotations secret) SecretGeneratedAtAnnotation = None \<or>
         go_lookup (Annotations secret) SecretRegenerateAnnotation \<noteq> None"
    and "copy_fault e = None"
    and "generateSecret (rand_Reader e) secretLength = Ok tok"
    and "Data secret = None"
  shows "SecretAdded secretLength e cl secret = (Panicked NilMapAssignment, cl)"
  using assms
  by (auto simp add: SecretAdded_def CopyObjToSecret_def Let_def go_lookup_def go_assign_def
      go_delete_def split: option.splits)

section \<open>The sample inputs, evaluated\<close>

lemma example_token: "generateSecret (rand_Reader example_env) 3 = Ok ''aA0''"
  by code_simp


lemma example_fresh_facts:
  "Annotations example_fresh = Some [SecretGenerateAnnotation \<mapsto> ''password'']"
  "Data example_fresh = Some [''username'' \<mapsto> ''admin'']"
  "copy_fault example_env = None"
  "time_Now_String example_env = ''2017-06-01 12:00:00.000000001 +0000 UTC''"
  by (simp_all add: example_fresh_def example_env_def)

lemma example_fresh_submitted:
  "submitted (fst (SecretAdded 3 example_env example_client example_fresh)) =
     Some (rebuilt example_fresh [SecretGenerateAnnotation \<mapsto> ''password''] [''username'' \<mapsto> ''admin'']
             ''password'' ''2017-06-01 12:00:00.000000001 +0000 UTC'' ''aA0'')"
  using submitted_regenerates [of example_fresh "[SecretGenerateAnnotation \<mapsto> ''password'']"
      "''password''" example_env 3 "''aA0''" "[''username'' \<mapsto> ''admin'']" example_client]
    annotation_keys_distinct
  by (simp add: example_fresh_facts example_token)

lemma example_first_rebuilt:
  "example_first =
     rebuilt example_fresh [SecretGenerateAnnotation \<mapsto> ''password''] [''username'' \<mapsto> ''admin'']
       ''password'' ''2017-06-01 12:00:00.000000001 +0000 UTC'' ''aA0''"
  using annotation_keys_distinct
  by (simp add: example_first_def rebuilt_def example_fresh_def fun_eq_iff)

lemma example_token_same:
  "generateSecret (rand_Reader example_env_same) 40 = Ok ''aaaaaaaaaaaaaaaaaaaaaaaaaaaaaaaaaaaaaaaa''"
  by code_simp

lemma example_regen_facts:
  "go_lookup (Annotations example_regen) SecretGenerateAnnotation = Some ''password''"
  "go_lookup (Annotations example_regen) SecretGeneratedAtAnnotation = Some ''2017-05-01 08:00:00 +0000 UTC''"
  "go_lookup (Annotations example_regen) SecretRegenerateAnnotation = Some ''yes''"
  "copy_fault example_env_same = None"
  "Data example_regen \<noteq> None"
  "go_lookup (Data example_regen) ''password'' = Some ''aaaaaaaaaaaaaaaaaaaaaaaaaaaaaaaaaaaaaaaa''"
  using annotation_keys_distinct
  by (simp_all add: example_regen_def example_env_same_def go_lookup_def)

lemma example_regen_submitted:
  "submitted (fst (SecretAdded 40 example_env_same example_client example_regen)) = Some example_regen_out"
proof -
  let ?a = "[SecretGenerateAnnotation \<mapsto> ''password'',
             SecretGeneratedAtAnnotation \<mapsto> ''2017-05-01 08:00:00 +0000 UTC'',
             SecretRegenerateAnnotation \<mapsto> ''yes'']"
  let ?d = "[''password'' \<mapsto> ''aaaaaaaaaaaaaaaaaaaaaaaaaaaaaaaaaaaaaaaa'']"
  have "submitted (fst (SecretAdded 40 example_env_same example_client example_regen)) =
          Some (rebuilt example_regen ?a ?d ''password'' (time_Now_String example_env_same)
                  ''aaaaaaaaaaaaaaaaaaaaaaaaaaaaaaaaaaaaaaaa'')"
    using submitted_regenerates [of example_regen ?a "''password''" example_env_same 40
        "''aaaaaaaaaaaaaaaaaaaaaaaaaaaaaaaaaaaaaaaa''" ?d example_client]
      example_token_same annotation_keys_distinct
    by (simp add: example_regen_def example_env_same_def)
  also have "rebuilt example_regen ?a ?d ''password'' (time_Now_String example_env_same)
                  ''aaaaaaaaaaaaaaaaaaaaaaaaaaaaaaaaaaaaaaaa'' = example_regen_out"
    using annotation_keys_distinct
    by (simp add: rebuilt_def example_regen_def example_regen_out_def example_env_same_def fun_eq_iff)
  finally show ?thesis .
qed

lemma example_noentropy: "generateSecret (rand_Reader example_env_noentropy) 40 = Err (Error ''entropy source failed'')"
  by code_simp

lemma example_stale_submitted:
  "submitted (fst (SecretAdded 3 example_env example_client example_stale)) = Some example_stale_out"
proof -
  let ?a = "[SecretGenerateAnnotation \<mapsto> ''password'']"
  let ?d = "[''username'' \<mapsto> ''admin'']"
  have "submitted (fst (SecretAdded 3 example_env example_client example_stale)) =
          Some (rebuilt example_stale ?a ?d ''password'' (time_Now_String example_env) ''aA0'')"
    using submitted_regenerates [of example_stale ?a "''password''" example_env 3 "''aA0''" ?d example_client]
      example_token annotation_keys_distinct
    by (simp add: example_stale_def example_fresh_facts)
  also have "rebuilt example_stale ?a ?d ''password'' (time_Now_String example_env) ''aA0'' = example_stale_out"
    using annotation_keys_distinct
    by (simp add: rebuilt_def example_stale_def example_stale_out_def example_fresh_facts fun_eq_iff)
  finally show ?thesis .
qed

lemma example_stale_conflict:
  "fst (Update (update_fault example_env) (new_version example_env) example_client example_stale_out) =
     Err (Error ''conflict'')"
  by (simp add: Update_def example_env_def example_client_def example_stale_out_def example_fresh_def)

lemma example_blank_facts:
  "go_lookup (Annotations example_blank) SecretGenerateAnnotation = Some ''''"
  "go_lookup (Annotations example_blank) SecretGeneratedAtAnnotation = Some ''''"
  "go_lookup (Annotations example_blank) SecretRegenerateAnnotation = Some ''''"
  "Data example_blank \<noteq> None"
  "go_lookup (Annotations example_blank_settled) SecretGenerateAnnotation = Some ''''"
  "go_lookup (Annotations example_blank_settled) SecretGeneratedAtAnnotation = Some ''''"
  "go_lookup (Annotations example_blank_settled) SecretRegenerateAnnotation = None"
  using annotation_keys_distinct
  by (simp_all add: example_blank_def example_blank_settled_def go_lookup_def)

section \<open>Properties of the reconciliation handler\<close>

text \<open>
  C1. A snapshot that carries the generate annotation and the generated-at annotation and
  no regenerate annotation is left alone: the handler returns at line 137, the store
  receives no request and holds the same objects, whatever the environment, and the same
  holds however many times the snapshot is delivered.
\<close>

theorem settled_is_noop:
  assumes "go_lookup (Annotations secret) SecretGenerateAnnotation = Some val"
    and "go_lookup (Annotations secret) SecretGeneratedAtAnnotation = Some at"
    and "go_lookup (Annotations secret) SecretRegenerateAnnotation = None"
  shows "SecretAdded secretLength e cl secret = (NoUpdateNeeded, cl) \<and>
         redeliver secretLength es cl secret = cl"
proof -
  have one: "SecretAdded secretLength e' cl secret = (NoUpdateNeeded, cl)" for e'
    using assms by (rule SecretAdded_NoUpdateNeeded)
  then have "redeliver secretLength es cl secret = cl"
    by (intro redeliver_fixed) simp
  with one show ?thesis by simp
qed

theorem settled_is_noop_witness:
  "go_lookup (Annotations example_settled) SecretGenerateAnnotation = Some ''password'' \<and>
   go_lookup (Annotations example_settled) SecretGeneratedAtAnnotation =
     Some ''2017-06-01 12:00:00.000000001 +0000 UTC'' \<and>
   go_lookup (Annotations example_settled) SecretRegenerateAnnotation = None \<and>
   SecretAdded 40 example_env example_client example_settled = (NoUpdateNeeded, example_client) \<and>
   redeliver 40 [example_env, example_env, example_env] example_client example_settled = example_client"
proof -
  have h1: "go_lookup (Annotations example_settled) SecretGenerateAnnotation = Some ''password''"
    by (simp add: example_settled_def go_lookup_def annotation_keys_distinct)
  have h2: "go_lookup (Annotations example_settled) SecretGeneratedAtAnnotation =
     Some ''2017-06-01 12:00:00.000000001 +0000 UTC''"
    by (simp add: example_settled_def go_lookup_def)
  have h3: "go_lookup (Annotations example_settled) SecretRegenerateAnnotation = None"
    using annotation_keys_distinct by (simp add: example_settled_def go_lookup_def)
  from settled_is_noop [OF h1 h2 h3] h1 h2 h3 show ?thesis by simp
qed

text \<open>
  C2. Whenever a call hands a snapshot to the store, that snapshot carries the
  generated-at annotation and no regenerate annotation, and delivering it back (as it is,
  or with the version the store gave it) ends at line 137 without a request, for every
  length, environment and store.
\<close>

theorem own_output_is_settled:
  assumes "submitted (fst (SecretAdded secretLength e cl secret)) = Some out"
  shows "go_lookup (Annotations out) SecretGeneratedAtAnnotation \<noteq> None \<and>
         go_lookup (Annotations out) SecretRegenerateAnnotation = None \<and>
         (\<forall>secretLength' e' cl' ver.
            SecretAdded secretLength' e' cl' out = (NoUpdateNeeded, cl') \<and>
            SecretAdded secretLength' e' cl' (out\<lparr>ResourceVersion := ver\<rparr>) = (NoUpdateNeeded, cl'))"
proof -
  from submitted_cases [OF assms] obtain a d val tok where
    a: "a SecretGenerateAnnotation = Some val"
    and out: "out = rebuilt secret a d val (time_Now_String e) tok"
    by blast
  have g: "go_lookup (Annotations out) SecretGenerateAnnotation = Some val"
    and at: "go_lookup (Annotations out) SecretGeneratedAtAnnotation = Some (time_Now_String e)"
    and re: "go_lookup (Annotations out) SecretRegenerateAnnotation = None"
    unfolding out using a by (simp_all add: rebuilt_lookups)
  have "SecretAdded secretLength' e' cl' out = (NoUpdateNeeded, cl')" for secretLength' e' cl'
    using g at re by (rule SecretAdded_NoUpdateNeeded)
  moreover have "SecretAdded secretLength' e' cl' (out\<lparr>ResourceVersion := ver\<rparr>) = (NoUpdateNeeded, cl')"
    for secretLength' e' cl' ver
    using g at re by (intro SecretAdded_NoUpdateNeeded) simp_all
  ultimately show ?thesis using at re by simp
qed

theorem own_output_is_settled_witness:
  "submitted (fst (SecretAdded 3 example_env example_client example_fresh)) = Some example_first \<and>
   go_lookup (Annotations example_first) SecretGeneratedAtAnnotation \<noteq> None \<and>
   go_lookup (Annotations example_first) SecretRegenerateAnnotation = None \<and>
   SecretAdded 3 example_env example_client example_first = (NoUpdateNeeded, example_client)"
proof -
  have h: "submitted (fst (SecretAdded 3 example_env example_client example_fresh)) = Some example_first"
    by (simp add: example_fresh_submitted example_first_rebuilt)
  from own_output_is_settled [OF h] h show ?thesis by simp
qed



text \<open>
  C4, as amended. For a settled snapshot to which the regenerate annotation has been
  added, when the copy and the generator succeed and \<open>Data\<close> is allocated, the snapshot
  handed to the store has no regenerate annotation and holds the generated token under
  the target key. The token is whatever the random source yields: the handler never
  compares it with the value it replaces.
\<close>

theorem regeneration_overwrites:
  assumes "go_lookup (Annotations secret) SecretGenerateAnnotation = Some val"
    and "go_lookup (Annotations secret) SecretGeneratedAtAnnotation = Some at"
    and "go_lookup (Annotations secret) SecretRegenerateAnnotation = Some req"
    and "copy_fault e = None"
    and "generateSecret (rand_Reader e) secretLength = Ok tok"
    and "Data secret \<noteq> None"
  shows "\<exists>out. submitted (fst (SecretAdded secretLength e cl secret)) = Some out \<and>
           go_lookup (Annotations out) SecretRegenerateAnnotation = None \<and>
           go_lookup (Data out) val = Some tok \<and>
           int (length tok) = secretLength \<and> set tok \<subseteq> set runes"
proof -
  from assms(1) obtain a where a: "Annotations secret = Some a" "a SecretGenerateAnnotation = Some val"
    by (cases "Annotations secret") (simp_all add: go_lookup_def)
  from assms(3) a have re: "a SecretGeneratedAtAnnotation = None \<or> a SecretRegenerateAnnotation \<noteq> None"
    by (simp add: go_lookup_def)
  from assms(6) obtain d where d: "Data secret = Some d" by blast
  have "submitted (fst (SecretAdded secretLength e cl secret)) =
          Some (rebuilt secret a d val (time_Now_String e) tok)"
    using a re assms(4,5) d by (rule submitted_regenerates)
  moreover note rebuilt_lookups(2,4) [of secret a d val "time_Now_String e" tok]
  moreover note generateSecret_Ok(2,3) [OF assms(5)]
  ultimately show ?thesis by blast
qed

theorem regeneration_overwrites_witness:
  "go_lookup (Annotations example_regen) SecretGenerateAnnotation = Some ''password'' \<and>
   go_lookup (Annotations example_regen) SecretGeneratedAtAnnotation = Some ''2017-05-01 08:00:00 +0000 UTC'' \<and>
   go_lookup (Annotations example_regen) SecretRegenerateAnnotation = Some ''yes'' \<and>
   copy_fault example_env_same = None \<and>
   generateSecret (rand_Reader example_env_same) 40 = Ok ''aaaaaaaaaaaaaaaaaaaaaaaaaaaaaaaaaaaaaaaa'' \<and>
   Data example_regen \<noteq> None \<and>
   (\<exists>out. submitted (fst (SecretAdded 40 example_env_same example_client example_regen)) = Some out \<and>
      go_lookup (Annotations out) SecretRegenerateAnnotation = None \<and>
      go_lookup (Data out) ''password'' = Some ''aaaaaaaaaaaaaaaaaaaaaaaaaaaaaaaaaaaaaaaa'')"
proof -
  from regeneration_overwrites [OF example_regen_facts(1,2,3,4) example_token_same example_regen_facts(5),
      of example_client]
  obtain out where
    "submitted (fst (SecretAdded 40 example_env_same example_client example_regen)) = Some out"
    "go_lookup (Annotations out) SecretRegenerateAnnotation = None"
    "go_lookup (Data out) ''password'' = Some ''aaaaaaaaaaaaaaaaaaaaaaaaaaaaaaaaaaaaaaaa''"
    by blast
  with example_regen_facts(1,2,3,4,5) example_token_same show ?thesis
    by (intro conjI exI [of _ out])
qed

text \<open>
  C4 as stated asks for a value different from the prior one. With a source that draws
  0 forty times, the token is forty times \<open>a\<close>; on a snapshot that already holds that
  value under the target key, the value handed to the store equals the prior one.
\<close>

theorem regeneration_same_value_counterexample:
  "go_lookup (Annotations example_regen) SecretGenerateAnnotation = Some ''password'' \<and>
   go_lookup (Annotations example_regen) SecretGeneratedAtAnnotation = Some ''2017-05-01 08:00:00 +0000 UTC'' \<and>
   go_lookup (Annotations example_regen) SecretRegenerateAnnotation = Some ''yes'' \<and>
   submitted (fst (SecretAdded 40 example_env_same example_client example_regen)) = Some example_regen_out \<and>
   go_lookup (Data example_regen_out) ''password'' = go_lookup (Data example_regen) ''password''"
proof -
  have "go_lookup (Data example_regen_out) ''password'' = go_lookup (Data example_regen) ''password''"
    by (simp add: example_regen_out_def example_regen_def go_lookup_def)
  with example_regen_facts(1,2,3) example_regen_submitted show ?thesis by (intro conjI)
qed



text \<open>
  C6. The snapshot handed to the store differs from the received one in the two maps
  only: name, namespace, version and every further field are the same; every annotation
  other than generated-at and regenerate is the same; every \<open>Data\<close> entry other than the
  target's is the same, and the keys of \<open>Data\<close> are the old ones and the target key.
\<close>

theorem frame_of_update:
  assumes "submitted (fst (SecretAdded secretLength e cl secret)) = Some out"
    and "go_lookup (Annotations secret) SecretGenerateAnnotation = Some val"
  shows "out = secret\<lparr>Annotations := Annotations out, Data := Data out\<rparr> \<and>
         (\<forall>k. k \<noteq> SecretGeneratedAtAnnotation \<and> k \<noteq> SecretRegenerateAnnotation \<longrightarrow>
              go_lookup (Annotations out) k = go_lookup (Annotations secret) k) \<and>
         (\<forall>k. k \<noteq> val \<longrightarrow> go_lookup (Data out) k = go_lookup (Data secret) k) \<and>
         go_keys (Data out) = insert val (go_keys (Data secret))"
proof -
  from submitted_cases [OF assms(1)] obtain a d val' tok where
    a: "Annotations secret = Some a" "a SecretGenerateAnnotation = Some val'"
    and d: "Data secret = Some d"
    and out: "out = rebuilt secret a d val' (time_Now_String e) tok"
    by blast
  from assms(2) a have val: "val' = val" by (simp add: go_lookup_def)
  show ?thesis
    unfolding out val using a d by (simp add: rebuilt_def go_lookup_def go_keys_def)
qed

theorem frame_of_update_witness:
  "submitted (fst (SecretAdded 3 example_env example_client example_fresh)) = Some example_first \<and>
   go_lookup (Annotations example_fresh) SecretGenerateAnnotation = Some ''password'' \<and>
   example_first = example_fresh\<lparr>Annotations := Annotations example_first, Data := Data example_first\<rparr> \<and>
   go_lookup (Annotations example_first) SecretGenerateAnnotation =
     go_lookup (Annotations example_fresh) SecretGenerateAnnotation \<and>
   go_lookup (Data example_first) ''username'' = go_lookup (Data example_fresh) ''username'' \<and>
   go_keys (Data example_first) = insert ''password'' (go_keys (Data example_fresh))"
proof -
  have h1: "submitted (fst (SecretAdded 3 example_env example_client example_fresh)) = Some example_first"
    by (simp add: example_fresh_submitted example_first_rebuilt)
  have h2: "go_lookup (Annotations example_fresh) SecretGenerateAnnotation = Some ''password''"
    by (simp add: example_fresh_facts go_lookup_def)
  have n: "SecretGenerateAnnotation \<noteq> SecretGeneratedAtAnnotation \<and>
           SecretGenerateAnnotation \<noteq> SecretRegenerateAnnotation"
    by (simp add: annotation_keys_distinct)
  have u: "''username'' \<noteq> ''password''" by simp
  note fr = frame_of_update [OF h1 h2]
  from fr have c1: "example_first = example_fresh\<lparr>Annotations := Annotations example_first, Data := Data example_first\<rparr>"
    by (rule conjunct1)
  from fr n have c2: "go_lookup (Annotations example_first) SecretGenerateAnnotation =
     go_lookup (Annotations example_fresh) SecretGenerateAnnotation"
    by simp
  from fr u have c3: "go_lookup (Data example_first) ''username'' = go_lookup (Data example_fresh) ''username''"
    by simp
  from fr have c4: "go_keys (Data example_first) = insert ''password'' (go_keys (Data example_fresh))"
    by simp
  from h1 h2 c1 c2 c3 c4 show ?thesis by (intro conjI)
qed

text \<open>
  C7. A snapshot without the generate annotation is ignored: the handler returns at line
  119 and the store is exactly as before, whatever else the annotations hold (a \<open>nil\<close>
  annotation map included).
\<close>

theorem unmanaged_untouched:
  assumes "go_lookup (Annotations secret) SecretGenerateAnnotation = None"
  shows "SecretAdded secretLength e cl secret = (Unmanaged, cl)"
  using assms by (rule SecretAdded_Unmanaged)

theorem unmanaged_untouched_witness:
  "go_lookup (Annotations example_unmanaged) SecretGenerateAnnotation = None \<and>
   SecretAdded 40 example_env example_client example_unmanaged = (Unmanaged, example_client)"
proof -
  have h: "go_lookup (Annotations example_unmanaged) SecretGenerateAnnotation = None"
    using annotation_keys_distinct by (simp add: example_unmanaged_def go_lookup_def)
  from unmanaged_untouched [OF h] h show ?thesis by simp
qed

text \<open>
  C8. For a managed snapshot that needs a token and whose copy succeeded: if the
  generator returns an error, the handler returns at line 149 and the store is untouched
  (no request was made); if the snapshot reached \<open>Update\<close> and the store answers with an
  error, the handler returns at line 164, the store holds the objects it held, and that
  one request is the only one made. Both are ordinary returns of the handler, not
  panics.
\<close>

theorem failure_abandons_attempt:
  assumes "go_lookup (Annotations secret) SecretGenerateAnnotation = Some val"
    and "go_lookup (Annotations secret) SecretGeneratedAtAnnotation = None \<or>
         go_lookup (Annotations secret) SecretRegenerateAnnotation \<noteq> None"
    and "copy_fault e = None"
  shows "(generateSecret (rand_Reader e) secretLength = Err err \<longrightarrow>
            SecretAdded secretLength e cl secret = (GenerateFailed err, cl)) \<and>
         (submitted (fst (SecretAdded secretLength e cl secret)) = Some out \<and>
          fst (Update (update_fault e) (new_version e) cl out) = Err err \<longrightarrow>
            SecretAdded secretLength e cl secret =
              (UpdateFailed out err, cl\<lparr>requests := out # requests cl\<rparr>))"
  using SecretAdded_GenerateFailed [OF assms] SecretAdded_UpdateFailed by blast

theorem failure_abandons_attempt_witness:
  "go_lookup (Annotations example_fresh) SecretGenerateAnnotation = Some ''password'' \<and>
   go_lookup (Annotations example_fresh) SecretGeneratedAtAnnotation = None \<and>
   copy_fault example_env_noentropy = None \<and>
   generateSecret (rand_Reader example_env_noentropy) 40 = Err (Error ''entropy source failed'') \<and>
   SecretAdded 40 example_env_noentropy example_client example_fresh =
     (GenerateFailed (Error ''entropy source failed''), example_client) \<and>
   go_lookup (Annotations example_stale) SecretGenerateAnnotation = Some ''password'' \<and>
   go_lookup (Annotations example_stale) SecretGeneratedAtAnnotation = None \<and>
   copy_fault example_env = None \<and>
   submitted (fst (SecretAdded 3 example_env example_client example_stale)) = Some example_stale_out \<and>
   fst (Update (update_fault example_env) (new_version example_env) example_client example_stale_out) =
     Err (Error ''conflict'') \<and>
   SecretAdded 3 example_env example_client example_stale =
     (UpdateFailed example_stale_out (Error ''conflict''),
      example_client\<lparr>requests := example_stale_out # requests example_client\<rparr>)"
proof -
  have f1: "go_lookup (Annotations example_fresh) SecretGenerateAnnotation = Some ''password''"
    by (simp add: example_fresh_facts go_lookup_def)
  have f2: "go_lookup (Annotations example_fresh) SecretGeneratedAtAnnotation = None"
    using annotation_keys_distinct by (simp add: example_fresh_facts go_lookup_def)
  have f3: "copy_fault example_env_noentropy = None" by (simp add: example_env_noentropy_def)
  have s1: "go_lookup (Annotations example_stale) SecretGenerateAnnotation = Some ''password''"
    by (simp add: example_stale_def go_lookup_def)
  have s2: "go_lookup (Annotations example_stale) SecretGeneratedAtAnnotation = None"
    using annotation_keys_distinct by (simp add: example_stale_def go_lookup_def)
  have s3: "copy_fault example_env = None" by (simp add: example_fresh_facts)
  from failure_abandons_attempt [OF f1 disjI1 [OF f2] f3, of 40 "Error ''entropy source failed''" example_client]
    example_noentropy
  have a: "SecretAdded 40 example_env_noentropy example_client example_fresh =
     (GenerateFailed (Error ''entropy source failed''), example_client)"
    by simp
  from failure_abandons_attempt [OF s1 disjI1 [OF s2] s3, of 3 "Error ''conflict''" example_client example_stale_out]
    example_stale_submitted example_stale_conflict
  have b: "SecretAdded 3 example_env example_client example_stale =
     (UpdateFailed example_stale_out (Error ''conflict''),
      example_client\<lparr>requests := example_stale_out # requests example_client\<rparr>)"
    by simp
  from f1 f2 f3 example_noentropy a s1 s2 s3 example_stale_submitted example_stale_conflict b
  show ?thesis by (intro conjI)
qed

text \<open>
  C10. Which way the handler goes is fixed by which of the three annotation keys are
  present, whatever their values: it ignores the snapshot exactly when the generate
  annotation is absent, and finds nothing to do exactly when generate and generated-at
  are present and regenerate is absent. In every other case, when the copy and the
  generator succeed and \<open>Data\<close> is allocated, the token is stored under the value of the
  generate annotation, the empty string included.
\<close>

theorem decision_by_presence:
  "(fst (SecretAdded secretLength e cl secret) = Unmanaged \<longleftrightarrow>
      go_lookup (Annotations secret) SecretGenerateAnnotation = None) \<and>
   (fst (SecretAdded secretLength e cl secret) = NoUpdateNeeded \<longleftrightarrow>
      go_lookup (Annotations secret) SecretGenerateAnnotation \<noteq> None \<and>
      go_lookup (Annotations secret) SecretGeneratedAtAnnotation \<noteq> None \<and>
      go_lookup (Annotations secret) SecretRegenerateAnnotation = None) \<and>
   (go_lookup (Annotations secret) SecretGenerateAnnotation = Some val \<and>
    (go_lookup (Annotations secret) SecretGeneratedAtAnnotation = None \<or>
     go_lookup (Annotations secret) SecretRegenerateAnnotation \<noteq> None) \<and>
    copy_fault e = None \<and> generateSecret (rand_Reader e) secretLength = Ok tok \<and>
    Data secret \<noteq> None \<longrightarrow>
      (\<exists>out. submitted (fst (SecretAdded secretLength e cl secret)) = Some out \<and>
             go_lookup (Data out) val = Some tok))"
  using SecretAdded_Unmanaged_iff [of secretLength e cl secret]
    SecretAdded_NoUpdateNeeded_iff [of secretLength e cl secret]
    SecretAdded_writes_target [of secret val e secretLength tok cl]
  by blast

theorem decision_by_presence_witness:
  "go_lookup (Annotations example_blank) SecretGenerateAnnotation = Some '''' \<and>
   go_lookup (Annotations example_blank) SecretGeneratedAtAnnotation = Some '''' \<and>
   go_lookup (Annotations example_blank) SecretRegenerateAnnotation = Some '''' \<and>
   copy_fault example_env = None \<and> generateSecret (rand_Reader example_env) 3 = Ok ''aA0'' \<and>
   Data example_blank \<noteq> None \<and>
   (\<exists>out. submitted (fst (SecretAdded 3 example_env example_client example_blank)) = Some out \<and>
          go_lookup (Data out) '''' = Some ''aA0'') \<and>
   go_lookup (Annotations example_blank_settled) SecretGenerateAnnotation = Some '''' \<and>
   go_lookup (Annotations example_blank_settled) SecretGeneratedAtAnnotation = Some '''' \<and>
   go_lookup (Annotations example_blank_settled) SecretRegenerateAnnotation = None \<and>
   fst (SecretAdded 3 example_env example_client example_blank_settled) = NoUpdateNeeded"
proof -
  have c: "copy_fault example_env = None" by (simp add: example_fresh_facts)
  from decision_by_presence [of 3 example_env example_client example_blank "''''" "''aA0''"]
    example_blank_facts(1,3,4) c example_token
  have a: "\<exists>out. submitted (fst (SecretAdded 3 example_env example_client example_blank)) = Some out \<and>
          go_lookup (Data out) '''' = Some ''aA0''"
    by simp
  from decision_by_presence [of 3 example_env example_client example_blank_settled "''''" "''aA0''"]
    example_blank_facts(5,6,7)
  have b: "fst (SecretAdded 3 example_env example_client example_blank_settled) = NoUpdateNeeded"
    by simp
  from example_blank_facts c example_token a b show ?thesis by (intro conjI)
qed

end
